theory Spec2Isabelle
  imports Main "HOL-Library.AList"
begin

section \<open>Data model of resourceTimeCalculator.py\<close>

text \<open>
  A timestamp is a \<^verbatim>\<open>datetime\<close>, taken as an integer count of seconds from a fixed
  origin. The difference of two timestamps is exact; the conversion of
  \<^verbatim>\<open>total_seconds()\<close> to a float is not modelled.
\<close>

type_synonym timestamp = int

text \<open>
  A stack event is a dictionary read only through \<^verbatim>\<open>event.get(key)\<close>, which gives
  \<^verbatim>\<open>None\<close> for an absent key: each of the three keys read is an optional field.
\<close>

record event =
  LogicalResourceId :: "string option"
  ResourceStatus :: "string option"
  Timestamp :: "timestamp option"

text \<open>The exceptions the code can raise; \<open>ClientError\<close> is whatever the service client raises.\<close>

datatype error = ValueError string | TypeError | KeyError | ClientError string

definition CREATE_IN_PROGRESS :: string where
  "CREATE_IN_PROGRESS = ''CREATE_IN_PROGRESS''"

definition CREATE_COMPLETE :: string where
  "CREATE_COMPLETE = ''CREATE_COMPLETE''"

definition DELETE_IN_PROGRESS :: string where
  "DELETE_IN_PROGRESS = ''DELETE_IN_PROGRESS''"

definition DELETE_COMPLETE :: string where
  "DELETE_COMPLETE = ''DELETE_COMPLETE''"

text \<open>
  The inner dictionary \<^verbatim>\<open>{"start_time": ..., "end_time": ...}\<close>. Both places that build
  one (lines 90-93 and 99-102) set both keys, so the keys are always present and a field
  holds \<open>None\<close> exactly when the value stored under the key is Python's \<^verbatim>\<open>None\<close>.
  After the second loop the dictionary has the key \<^verbatim>\<open>"duration"\<close> as well.
\<close>

record times =
  start_time :: "timestamp option"
  end_time :: "timestamp option"

record timed = times +
  duration :: int

text \<open>
  \<^verbatim>\<open>resource_times\<close> is a Python dict, which keeps its keys in insertion order: an
  association list with distinct keys. \<open>AList.update\<close> replaces the value of a present
  key in place and appends an absent key at the end, as \<^verbatim>\<open>d[k] = v\<close> does. The key is
  \<^verbatim>\<open>event.get("LogicalResourceId")\<close>, possibly \<^verbatim>\<open>None\<close>.
\<close>

type_synonym resource_id = "string option"

type_synonym resource_times = "(resource_id \<times> times) list"

definition contains :: "resource_id \<Rightarrow> resource_times \<Rightarrow> bool" where
  "contains resource_id rt = (map_of rt resource_id \<noteq> None)"

section \<open>The Duration Analyzer\<close>

text \<open>
  \<^verbatim>\<open>a < b\<close> on two values that are each a datetime or \<^verbatim>\<open>None\<close>: Python 3 raises
  \<^verbatim>\<open>TypeError\<close> when either side is \<^verbatim>\<open>None\<close>.
\<close>

fun py_lt :: "timestamp option \<Rightarrow> timestamp option \<Rightarrow> error + bool" where
  "py_lt (Some a) (Some b) = Inr (a < b)"
| "py_lt _ _ = Inl TypeError"

text \<open>\<^verbatim>\<open>resource_times.get(resource_id, {}).get("start_time")\<close>\<close>

definition get_start_time :: "resource_times \<Rightarrow> resource_id \<Rightarrow> timestamp option" where
  "get_start_time rt resource_id =
     (case map_of rt resource_id of None \<Rightarrow> None | Some t \<Rightarrow> start_time t)"

text \<open>
  \<^verbatim>\<open>resource_times[resource_id]["start_time"] = v\<close> and the same for \<^verbatim>\<open>"end_time"\<close>:
  the subscript raises \<^verbatim>\<open>KeyError\<close> on an absent key.
\<close>

definition set_start_time ::
  "resource_id \<Rightarrow> timestamp option \<Rightarrow> resource_times \<Rightarrow> error + resource_times" where
  "set_start_time resource_id v rt =
     (case map_of rt resource_id of
        None \<Rightarrow> Inl KeyError
      | Some t \<Rightarrow> Inr (AList.update resource_id (t\<lparr>start_time := v\<rparr>) rt))"

definition set_end_time ::
  "resource_id \<Rightarrow> timestamp option \<Rightarrow> resource_times \<Rightarrow> error + resource_times" where
  "set_end_time resource_id v rt =
     (case map_of rt resource_id of
        None \<Rightarrow> Inl KeyError
      | Some t \<Rightarrow> Inr (AList.update resource_id (t\<lparr>end_time := v\<rparr>) rt))"

definition invalid_operation :: string where
  "invalid_operation =
     ''Invalid operation. Use '' @ [CHR 0x27] @ ''create'' @ [CHR 0x27] @ '' or ''
       @ [CHR 0x27] @ ''delete'' @ [CHR 0x27] @ ''.''"

text \<open>Lines 77-84: the pair of status codes of the operation, chosen anew for each event.\<close>

definition select_statuses :: "string \<Rightarrow> error + string \<times> string" where
  "select_statuses operation =
     (if operation = ''create'' then Inr (CREATE_IN_PROGRESS, CREATE_COMPLETE)
      else if operation = ''delete'' then Inr (DELETE_IN_PROGRESS, DELETE_COMPLETE)
      else Inl (ValueError invalid_operation))"

text \<open>
  The body of the loop over the events (lines 75-102). In the condition of line 87,
  \<^verbatim>\<open>or\<close> evaluates its right operand only when the left one is false.
\<close>

definition process_event ::
  "string \<Rightarrow> event \<Rightarrow> resource_times \<Rightarrow> error + resource_times" where
  "process_event operation ev rt =
     (let resource_id = LogicalResourceId ev in
      case select_statuses operation of
        Inl e \<Rightarrow> Inl e
      | Inr (status_in_progress, status_complete) \<Rightarrow>
          if ResourceStatus ev = Some status_in_progress then
            (if contains resource_id rt then set_start_time resource_id (Timestamp ev) rt
             else
               (case py_lt (Timestamp ev) (get_start_time rt resource_id) of
                  Inl e \<Rightarrow> Inl e
                | Inr True \<Rightarrow> set_start_time resource_id (Timestamp ev) rt
                | Inr False \<Rightarrow>
                    Inr (AList.update resource_id
                          \<lparr>start_time = Timestamp ev, end_time = None\<rparr> rt)))
          else if ResourceStatus ev = Some status_complete then
            (if contains resource_id rt then set_end_time resource_id (Timestamp ev) rt
             else
               Inr (AList.update resource_id
                     \<lparr>start_time = None, end_time = Timestamp ev\<rparr> rt))
          else Inr rt)"

fun run_events :: "string \<Rightarrow> event list \<Rightarrow> resource_times \<Rightarrow> error + resource_times" where
  "run_events operation [] rt = Inr rt"
| "run_events operation (ev # events) rt =
     (case process_event operation ev rt of
        Inl e \<Rightarrow> Inl e
      | Inr rt' \<Rightarrow> run_events operation events rt')"

text \<open>
  \<^verbatim>\<open>(end_time - start_time).total_seconds()\<close>: subtracting with \<^verbatim>\<open>None\<close> on either
  side raises \<^verbatim>\<open>TypeError\<close>.
\<close>

fun calculate_time_difference :: "timestamp option \<Rightarrow> timestamp option \<Rightarrow> error + int" where
  "calculate_time_difference (Some s) (Some e) = Inr (e - s)"
| "calculate_time_difference _ _ = Inl TypeError"

text \<open>
  Lines 104-105. \<^verbatim>\<open>times.get("start_time", datetime.min)\<close> returns the value stored
  under the key, which is present: the default is used for an absent key only, so a stored
  \<^verbatim>\<open>None\<close> reaches the subtraction.
\<close>

fun add_durations :: "resource_times \<Rightarrow> error + (resource_id \<times> timed) list" where
  "add_durations [] = Inr []"
| "add_durations ((resource_id, t) # rest) =
     (case calculate_time_difference (start_time t) (end_time t) of
        Inl e \<Rightarrow> Inl e
      | Inr d \<Rightarrow>
          (case add_durations rest of
             Inl e \<Rightarrow> Inl e
           | Inr rest' \<Rightarrow>
               Inr ((resource_id,
                     \<lparr>start_time = start_time t, end_time = end_time t, duration = d\<rparr>) # rest')))"

text \<open>
  \<^verbatim>\<open>sorted(items, key=duration, reverse=True)\<close> is a stable sort by descending key;
  \<open>sort_key\<close> is stable, so sorting by the negated duration gives the same list.
\<close>

definition sorted_resources :: "(resource_id \<times> timed) list \<Rightarrow> (resource_id \<times> timed) list" where
  "sorted_resources items = sort_key (\<lambda>x. - duration (snd x)) items"

definition find_resources_with_longest_time ::
  "event list \<Rightarrow> string \<Rightarrow> error + (resource_id \<times> timed) list" where
  "find_resources_with_longest_time events operation =
     (case run_events operation events [] of
        Inl e \<Rightarrow> Inl e
      | Inr rt \<Rightarrow>
          (case add_durations rt of
             Inl e \<Rightarrow> Inl e
           | Inr items \<Rightarrow> Inr (sorted_resources items)))"

text \<open>
  \<^verbatim>\<open>analyze_events\<close> prints; the model returns the lines printed, a report line kept as
  the resource id and the duration it shows.
\<close>

datatype output_line = Message string | ResourceLine resource_id int

definition analyze_events :: "event list \<Rightarrow> string \<Rightarrow> error + output_line list" where
  "analyze_events events operation =
     (if operation \<notin> set [''create'', ''delete''] then Inr [Message invalid_operation]
      else
        (case find_resources_with_longest_time events operation of
           Inl e \<Rightarrow> Inl e
         | Inr sorted_res \<Rightarrow>
             Inr (Message (''Resources with longest '' @ operation @ '' times:'')
                  # map (\<lambda>(resource_id, t). ResourceLine resource_id (duration t)) sorted_res)))"

section \<open>The Event Fetcher\<close>

text \<open>
  A response of \<^verbatim>\<open>describe_stack_events\<close>, read through \<^verbatim>\<open>response.get\<close>: both keys
  are optional.
\<close>

record response =
  StackEvents :: "event list option"
  NextToken :: "string option"

text \<open>Truth value of \<^verbatim>\<open>next_token\<close>: \<^verbatim>\<open>None\<close> and the empty string are false.\<close>

fun truthy :: "string option \<Rightarrow> bool" where
  "truthy None = False"
| "truthy (Some s) = (s \<noteq> [])"

text \<open>
  The service client answers a request, given by the stack name and the optional token, with
  a response or an exception. The loop of lines 27-42 may run forever, so it is a partial
  function; beside the events it returns the requests it issued, in order.
\<close>

type_synonym request = "string \<times> string option"

type_synonym client = "string \<Rightarrow> string option \<Rightarrow> error + response"

partial_function (option) fetch_loop ::
  "client \<Rightarrow> string \<Rightarrow> string option \<Rightarrow> event list \<Rightarrow> request list
     \<Rightarrow> (error + event list \<times> request list) option" where
  "fetch_loop describe_stack_events stack_name next_token all_events requests =
     (let token = (if truthy next_token then next_token else None) in
      case describe_stack_events stack_name token of
        Inl e \<Rightarrow> Some (Inl e)
      | Inr resp \<Rightarrow>
          (let events = (case StackEvents resp of None \<Rightarrow> [] | Some es \<Rightarrow> es) in
           if truthy (NextToken resp)
           then fetch_loop describe_stack_events stack_name (NextToken resp)
                  (all_events @ events) (requests @ [(stack_name, token)])
           else Some (Inr (all_events @ events, requests @ [(stack_name, token)]))))"

definition get_all_events ::
  "(string \<Rightarrow> client) \<Rightarrow> string \<Rightarrow> string \<Rightarrow> (error + event list \<times> request list) option" where
  "get_all_events boto3_client stack_name region =
     fetch_loop (boto3_client region) stack_name None [] []"

section \<open>Notation for concrete events\<close>

text \<open>An event that carries all three keys.\<close>

definition stack_event :: "string \<Rightarrow> string \<Rightarrow> timestamp \<Rightarrow> event" where
  "stack_event r s t = \<lparr>LogicalResourceId = Some r, ResourceStatus = Some s, Timestamp = Some t\<rparr>"

text \<open>
  A service that holds three pages of the events of the stack \<open>stack\<close> and rejects every
  other request.
\<close>

definition pages_client :: "string \<Rightarrow> client" where
  "pages_client region stack_name token =
     (if stack_name \<noteq> ''stack'' then Inl (ClientError ''ValidationError'')
      else if token = None then
        Inr \<lparr>StackEvents = Some [stack_event ''A'' CREATE_COMPLETE 9], NextToken = Some ''t1''\<rparr>
      else if token = Some ''t1'' then
        Inr \<lparr>StackEvents = Some [stack_event ''A'' CREATE_IN_PROGRESS 2], NextToken = Some ''t2''\<rparr>
      else if token = Some ''t2'' then
        Inr \<lparr>StackEvents = Some [stack_event ''A'' CREATE_IN_PROGRESS 1], NextToken = None\<rparr>
      else Inl (ClientError ''ValidationError''))"

section \<open>Basic facts\<close>

lemmas status_defs =
  CREATE_IN_PROGRESS_def CREATE_COMPLETE_def DELETE_IN_PROGRESS_def DELETE_COMPLETE_def

lemmas analyzer_defs =
  find_resources_with_longest_time_def process_event_def select_statuses_def contains_def
  set_start_time_def set_end_time_def get_start_time_def sorted_resources_def stack_event_def
  status_defs

lemma py_lt_None [simp]: "py_lt x None = Inl TypeError"
  by (cases x) simp_all

lemma run_events_append:
  "run_events operation (xs @ ys) rt =
     (case run_events operation xs rt of
        Inl e \<Rightarrow> Inl e
      | Inr rt' \<Rightarrow> run_events operation ys rt')"
  by (induction xs arbitrary: rt) (auto split: sum.splits)

lemma process_event_in_progress_absent:
  assumes "select_statuses operation = Inr (status_in_progress, status_complete)"
    and "ResourceStatus ev = Some status_in_progress"
    and "\<not> contains (LogicalResourceId ev) rt"
  shows "process_event operation ev rt = Inl TypeError"
  using assms by (simp add: process_event_def get_start_time_def contains_def)

lemma process_event_invalid:
  "operation \<noteq> ''create'' \<Longrightarrow> operation \<noteq> ''delete'' \<Longrightarrow>
   process_event operation ev rt = Inl (ValueError invalid_operation)"
  by (simp add: process_event_def select_statuses_def)

section \<open>What a finished run records\<close>

text \<open>
  Facts about the runs that do not raise: those in which a complete event of a resource
  precedes its in-progress events, as in a listing that is newest first.
\<close>

lemma select_statuses_distinct:
  "select_statuses operation = Inr (status_in_progress, status_complete) \<Longrightarrow>
   status_in_progress \<noteq> status_complete"
  by (auto simp: select_statuses_def status_defs split: if_splits)

lemma process_event_keeps_end_time:
  assumes "select_statuses operation = Inr (status_in_progress, status_complete)"
    and "process_event operation ev rt = Inr rt'"
    and "\<not> (LogicalResourceId ev = resource_id \<and> ResourceStatus ev = Some status_complete)"
    and "map_of rt resource_id = Some t"
  shows "\<exists>t'. map_of rt' resource_id = Some t' \<and> end_time t' = end_time t"
  using assms
  by (auto simp: process_event_def Let_def contains_def set_start_time_def set_end_time_def
      get_start_time_def update_conv' split: if_splits option.splits)

lemma process_event_sets_end_time:
  assumes "select_statuses operation = Inr (status_in_progress, status_complete)"
    and "process_event operation ev rt = Inr rt'"
    and "ResourceStatus ev = Some status_complete"
  shows "\<exists>t'. map_of rt' (LogicalResourceId ev) = Some t' \<and> end_time t' = Timestamp ev"
  using assms select_statuses_distinct [OF assms(1)]
  by (auto simp: process_event_def Let_def contains_def set_end_time_def update_conv'
      split: if_splits option.splits)

lemma run_events_snoc:
  "run_events operation (xs @ [x]) rt = Inr rt'' \<Longrightarrow>
   \<exists>rt'. run_events operation xs rt = Inr rt' \<and> process_event operation x rt' = Inr rt''"
  by (auto simp: run_events_append split: sum.splits)

text \<open>
  When the loop finishes, the end time of a resource is the timestamp of its complete event
  that came last in the input, whatever the timestamps are.
\<close>

lemma end_time_last_write_wins:
  assumes "select_statuses operation = Inr (status_in_progress, status_complete)"
    and "run_events operation events rt0 = Inr rt"
    and "filter (\<lambda>e. LogicalResourceId e = resource_id \<and> ResourceStatus e = Some status_complete)
           events \<noteq> []"
  shows "\<exists>t. map_of rt resource_id = Some t
           \<and> end_time t = Timestamp (last (filter (\<lambda>e. LogicalResourceId e = resource_id
                  \<and> ResourceStatus e = Some status_complete) events))"
  using assms(2,3)
proof (induction events arbitrary: rt rule: rev_induct)
  case Nil
  then show ?case by simp
next
  case (snoc x xs)
  from run_events_snoc [OF snoc.prems(1)] obtain rt'
    where xs: "run_events operation xs rt0 = Inr rt'"
      and x: "process_event operation x rt' = Inr rt"
    by blast
  show ?case
  proof (cases "LogicalResourceId x = resource_id \<and> ResourceStatus x = Some status_complete")
    case True
    with process_event_sets_end_time [OF assms(1) x] show ?thesis
      by simp
  next
    case False
    with snoc.prems(2) have ne: "filter (\<lambda>e. LogicalResourceId e = resource_id
        \<and> ResourceStatus e = Some status_complete) xs \<noteq> []"
      by simp
    from snoc.IH [OF xs ne] obtain t where t: "map_of rt' resource_id = Some t"
      "end_time t = Timestamp (last (filter (\<lambda>e. LogicalResourceId e = resource_id
                  \<and> ResourceStatus e = Some status_complete) xs))"
      by blast
    from process_event_keeps_end_time [OF assms(1) x False t(1)] t(2) False show ?thesis
      by simp
  qed
qed

text \<open>A record with an unset side makes the second loop raise, wherever it stands.\<close>

lemma add_durations_unset:
  "(resource_id, t) \<in> set rt \<Longrightarrow> start_time t = None \<or> end_time t = None \<Longrightarrow>
   add_durations rt = Inl TypeError"
proof (induction rt)
  case Nil
  then show ?case by simp
next
  case (Cons p rt)
  obtain k u where p: "p = (k, u)" by (cases p)
  show ?case
  proof (cases "calculate_time_difference (start_time u) (end_time u)")
    case (Inl e)
    then have "e = TypeError"
      by (cases "start_time u"; cases "end_time u") auto
    with Inl p show ?thesis by simp
  next
    case (Inr d)
    then have "start_time u \<noteq> None \<and> end_time u \<noteq> None"
      by (cases "start_time u"; cases "end_time u") auto
    with Cons.prems p have "(resource_id, t) \<in> set rt" by auto
    with Cons.IH Cons.prems(2) have "add_durations rt = Inl TypeError" by blast
    with Inr p show ?thesis by simp
  qed
qed

text \<open>The pair and the end-to-end scenario, listed newest first.\<close>

lemma newest_first_pair:
  "find_resources_with_longest_time
     [stack_event R CREATE_COMPLETE T2, stack_event R CREATE_IN_PROGRESS T1] ''create''
   = Inr [(Some R, \<lparr>start_time = Some T1, end_time = Some T2, duration = T2 - T1\<rparr>)]"
  by (simp add: analyzer_defs)

lemma newest_first_scenario:
  "R1 \<noteq> R2 \<Longrightarrow> find_resources_with_longest_time
     [stack_event R1 CREATE_COMPLETE (T0 + 5), stack_event R2 CREATE_COMPLETE (T0 + 2),
      stack_event R2 CREATE_IN_PROGRESS (T0 + 1), stack_event R1 CREATE_IN_PROGRESS T0] ''create''
   = Inr [(Some R1, \<lparr>start_time = Some T0, end_time = Some (T0 + 5), duration = 5\<rparr>),
          (Some R2, \<lparr>start_time = Some (T0 + 1), end_time = Some (T0 + 2), duration = 1\<rparr>)]"
  by (simp add: analyzer_defs)

section \<open>Start and end times\<close>

text \<open>
  C1: with two in-progress events at \<open>T1 < T3\<close> and one complete event at \<open>T2\<close> for one
  resource, the recorded start time is to be \<open>T1\<close>, whatever the arrival order. The
  comparison of line 87 is never evaluated for a resource that has a record: the left operand
  of \<^verbatim>\<open>or\<close> already holds, and the start time is overwritten. On the order complete,
  \<open>T1\<close>, \<open>T3\<close> the code records \<open>T3\<close>.
\<close>

theorem start_time_overwritten_by_later_event:
  "find_resources_with_longest_time
     [stack_event R CREATE_COMPLETE T2, stack_event R CREATE_IN_PROGRESS T1,
      stack_event R CREATE_IN_PROGRESS T3] ''create''
   = Inr [(Some R, \<lparr>start_time = Some T3, end_time = Some T2, duration = T2 - T3\<rparr>)]"
  by (simp add: analyzer_defs)

text \<open>
  C6: with two complete events at \<open>T2\<close> and \<open>T4\<close> and one in-progress event at \<open>T1\<close> for
  one resource, the recorded end time is to be that of the complete event processed last.
  When the in-progress event arrives first, the code raises at that event and records no end
  time at all.
\<close>

theorem end_time_lost_when_in_progress_first:
  "find_resources_with_longest_time
     [stack_event R CREATE_IN_PROGRESS T1, stack_event R CREATE_COMPLETE T2,
      stack_event R CREATE_COMPLETE T4] ''create''
   = Inl TypeError"
  by (simp add: analyzer_defs)

section \<open>Durations\<close>

text \<open>
  C3: a record with an unset start or end time is to get a duration computed against the
  minimum timestamp. The record built for a lone complete event has its start time stored as
  \<open>None\<close>, the default of \<^verbatim>\<open>get\<close> is not used, and the subtraction raises.
\<close>

theorem unset_start_time_raises:
  "find_resources_with_longest_time [stack_event R CREATE_COMPLETE T] ''create'' = Inl TypeError"
  by (simp add: analyzer_defs)

text \<open>
  C4: a resource with one in-progress event at \<open>T1\<close> and one complete event at \<open>T2 > T1\<close>
  is to be reported with the duration \<open>T2 - T1\<close>. With the two events in the order of their
  timestamps the code raises at the first one.
\<close>

theorem single_pair_in_order_raises:
  "find_resources_with_longest_time
     [stack_event R CREATE_IN_PROGRESS T1, stack_event R CREATE_COMPLETE T2] ''create''
   = Inl TypeError"
  by (simp add: analyzer_defs)

text \<open>
  C5: the four events of the end-to-end scenario, with the operation create, are to give
  \<open>R1\<close> with 5 seconds, then \<open>R2\<close> with 1 second. The code raises at the first event.
\<close>

theorem scenario_raises:
  "find_resources_with_longest_time
     [stack_event R1 CREATE_IN_PROGRESS T0, stack_event R2 CREATE_IN_PROGRESS (T0 + 1),
      stack_event R1 CREATE_COMPLETE (T0 + 5), stack_event R2 CREATE_COMPLETE (T0 + 2)] ''create''
   = Inl TypeError"
  by (simp add: analyzer_defs)

text \<open>
  C9: an in-progress event of the selected operation, reached by the loop when its resource
  has no record, makes the analyzer raise \<^verbatim>\<open>TypeError\<close>: the loop body raises at that
  event, so no record is created, and the whole call raises, whatever follows.
\<close>

theorem in_progress_without_record_raises:
  assumes "select_statuses operation = Inr (status_in_progress, status_complete)"
    and "run_events operation pre [] = Inr rt"
    and "ResourceStatus ev = Some status_in_progress"
    and "\<not> contains (LogicalResourceId ev) rt"
  shows "process_event operation ev rt = Inl TypeError
       \<and> find_resources_with_longest_time (pre @ ev # post) operation = Inl TypeError"
  using assms
  by (simp add: find_resources_with_longest_time_def run_events_append
      process_event_in_progress_absent)

theorem in_progress_without_record_raises_witness:
  "select_statuses ''create'' = Inr (CREATE_IN_PROGRESS, CREATE_COMPLETE)
   \<and> run_events ''create'' [stack_event ''A'' CREATE_COMPLETE 5] []
       = Inr [(Some ''A'', \<lparr>start_time = None, end_time = Some 5\<rparr>)]
   \<and> ResourceStatus (stack_event ''B'' CREATE_IN_PROGRESS 1) = Some CREATE_IN_PROGRESS
   \<and> \<not> contains (LogicalResourceId (stack_event ''B'' CREATE_IN_PROGRESS 1))
         [(Some ''A'', \<lparr>start_time = None, end_time = Some 5\<rparr>)]
   \<and> process_event ''create'' (stack_event ''B'' CREATE_IN_PROGRESS 1)
         [(Some ''A'', \<lparr>start_time = None, end_time = Some 5\<rparr>)] = Inl TypeError
   \<and> find_resources_with_longest_time
         ([stack_event ''A'' CREATE_COMPLETE 5] @ stack_event ''B'' CREATE_IN_PROGRESS 1
            # [stack_event ''B'' CREATE_COMPLETE 7]) ''create'' = Inl TypeError"
proof -
  have h1: "select_statuses ''create'' = Inr (CREATE_IN_PROGRESS, CREATE_COMPLETE)"
    by (simp add: select_statuses_def)
  have h2: "run_events ''create'' [stack_event ''A'' CREATE_COMPLETE 5] []
       = Inr [(Some ''A'', \<lparr>start_time = None, end_time = Some 5\<rparr>)]"
    by (simp add: analyzer_defs)
  have h3: "ResourceStatus (stack_event ''B'' CREATE_IN_PROGRESS 1) = Some CREATE_IN_PROGRESS"
    by (simp add: stack_event_def)
  have h4: "\<not> contains (LogicalResourceId (stack_event ''B'' CREATE_IN_PROGRESS 1))
         [(Some ''A'', \<lparr>start_time = None, end_time = Some 5\<rparr>)]"
    by (simp add: stack_event_def contains_def)
  show ?thesis
    using h1 h2 h3 h4
      in_progress_without_record_raises [OF h1 h2 h3 h4, of "[stack_event ''B'' CREATE_COMPLETE 7]"]
    by simp
qed

section \<open>The operation selector\<close>

text \<open>
  C10: on the empty event sequence \<open>find_resources_with_longest_time\<close> returns the empty
  list for every operation string, valid or not: the selector is only looked at inside the
  loop over the events.
\<close>

theorem empty_events_return_empty: "find_resources_with_longest_time [] operation = Inr []"
  by (simp add: find_resources_with_longest_time_def sorted_resources_def)

text \<open>
  C2, as amended: with an operation that is neither create nor delete,
  \<open>find_resources_with_longest_time\<close> raises the invalid-operation \<^verbatim>\<open>ValueError\<close> on
  every non-empty event sequence and returns the empty list on the empty one, and
  \<open>analyze_events\<close> prints the invalid-operation message, and nothing else, on every event
  sequence, the empty one included, without raising.
\<close>

theorem invalid_operation_rejected:
  assumes "operation \<noteq> ''create''" and "operation \<noteq> ''delete''"
  shows "(events \<noteq> [] \<longrightarrow>
            find_resources_with_longest_time events operation = Inl (ValueError invalid_operation))
       \<and> find_resources_with_longest_time [] operation = Inr []
       \<and> analyze_events events operation = Inr [Message invalid_operation]"
proof (intro conjI impI)
  assume "events \<noteq> []"
  then obtain ev rest where "events = ev # rest"
    by (cases events) auto
  then show "find_resources_with_longest_time events operation = Inl (ValueError invalid_operation)"
    using assms by (simp add: find_resources_with_longest_time_def process_event_invalid)
next
  show "find_resources_with_longest_time [] operation = Inr []"
    by (simp add: find_resources_with_longest_time_def sorted_resources_def)
next
  show "analyze_events events operation = Inr [Message invalid_operation]"
    using assms by (simp add: analyze_events_def)
qed

theorem invalid_operation_rejected_witness:
  "''update'' \<noteq> ''create'' \<and> ''update'' \<noteq> ''delete''
   \<and> [stack_event ''A'' CREATE_COMPLETE 5] \<noteq> []
   \<and> find_resources_with_longest_time [stack_event ''A'' CREATE_COMPLETE 5] ''update''
       = Inl (ValueError invalid_operation)
   \<and> find_resources_with_longest_time [] ''update'' = Inr []
   \<and> analyze_events [stack_event ''A'' CREATE_COMPLETE 5] ''update''
       = Inr [Message invalid_operation]"
proof -
  have h1: "''update'' \<noteq> ''create''" by simp
  have h2: "''update'' \<noteq> ''delete''" by simp
  show ?thesis
    using h1 h2 invalid_operation_rejected [OF h1 h2, of "[stack_event ''A'' CREATE_COMPLETE 5]"]
    by simp
qed

text \<open>
  C2 as stated fails on the empty event sequence: with the operation \<open>update\<close> neither
  function raises.
\<close>

theorem invalid_operation_empty_counterexample:
  "find_resources_with_longest_time [] ''update'' = Inr []
   \<and> analyze_events [] ''update'' = Inr [Message invalid_operation]"
  by (simp add: find_resources_with_longest_time_def sorted_resources_def analyze_events_def)

section \<open>Order of the report\<close>

text \<open>
  C7: the list that \<open>find_resources_with_longest_time\<close> returns is sorted by duration in
  descending order: the duration of each pair is at least that of every later pair.
\<close>

theorem result_sorted_descending:
  assumes "find_resources_with_longest_time events operation = Inr out"
  shows "sorted_wrt (\<lambda>a b. duration (snd a) \<ge> duration (snd b)) out"
proof -
  from assms obtain items where "out = sorted_resources items"
    by (auto simp: find_resources_with_longest_time_def split: sum.splits)
  moreover have "sorted (map (\<lambda>x. - duration (snd x)) (sorted_resources items))"
    unfolding sorted_resources_def by (rule sorted_sort_key)
  ultimately show ?thesis
    by (simp add: sorted_map)
qed

theorem result_sorted_descending_witness:
  "find_resources_with_longest_time
     [stack_event ''A'' CREATE_COMPLETE 4, stack_event ''B'' CREATE_COMPLETE 9,
      stack_event ''C'' CREATE_COMPLETE 6, stack_event ''C'' CREATE_IN_PROGRESS 3,
      stack_event ''B'' CREATE_IN_PROGRESS 2, stack_event ''A'' CREATE_IN_PROGRESS 1] ''create''
   = Inr [(Some ''B'', \<lparr>start_time = Some 2, end_time = Some 9, duration = 7\<rparr>),
          (Some ''A'', \<lparr>start_time = Some 1, end_time = Some 4, duration = 3\<rparr>),
          (Some ''C'', \<lparr>start_time = Some 3, end_time = Some 6, duration = 3\<rparr>)]
   \<and> sorted_wrt (\<lambda>a b. duration (snd a) \<ge> duration (snd b))
       [(Some ''B'', \<lparr>start_time = Some 2, end_time = Some 9, duration = 7\<rparr>),
        (Some ''A'', \<lparr>start_time = Some 1, end_time = Some 4, duration = 3\<rparr>),
        (Some ''C'', \<lparr>start_time = Some 3, end_time = Some 6, duration = 3\<rparr>)]"
proof -
  have h: "find_resources_with_longest_time
     [stack_event ''A'' CREATE_COMPLETE 4, stack_event ''B'' CREATE_COMPLETE 9,
      stack_event ''C'' CREATE_COMPLETE 6, stack_event ''C'' CREATE_IN_PROGRESS 3,
      stack_event ''B'' CREATE_IN_PROGRESS 2, stack_event ''A'' CREATE_IN_PROGRESS 1] ''create''
   = Inr [(Some ''B'', \<lparr>start_time = Some 2, end_time = Some 9, duration = 7\<rparr>),
          (Some ''A'', \<lparr>start_time = Some 1, end_time = Some 4, duration = 3\<rparr>),
          (Some ''C'', \<lparr>start_time = Some 3, end_time = Some 6, duration = 3\<rparr>)]"
    by (simp add: analyzer_defs)
  show ?thesis
    using h result_sorted_descending [OF h] by blast
qed

section \<open>Pagination\<close>

text \<open>
  C8: when the service answers the request without a token with \<open>page1\<close> and the token
  \<open>A\<close>, the request with \<open>A\<close> with \<open>page2\<close> and the token \<open>B\<close>, and the request with
  \<open>B\<close> with \<open>page3\<close> and no token, \<open>get_all_events\<close> returns the three pages
  concatenated in order and issues exactly these three requests. A token is a non-empty
  string.
\<close>

theorem get_all_events_three_pages:
  assumes "A \<noteq> []" and "B \<noteq> []"
    and "boto3_client region stack_name None
           = Inr \<lparr>StackEvents = Some page1, NextToken = Some A\<rparr>"
    and "boto3_client region stack_name (Some A)
           = Inr \<lparr>StackEvents = Some page2, NextToken = Some B\<rparr>"
    and "boto3_client region stack_name (Some B)
           = Inr \<lparr>StackEvents = Some page3, NextToken = None\<rparr>"
  shows "get_all_events boto3_client stack_name region =
           Some (Inr (page1 @ page2 @ page3,
                      [(stack_name, None), (stack_name, Some A), (stack_name, Some B)]))"
  unfolding get_all_events_def
  apply (subst fetch_loop.simps)
  apply (simp add: assms)
  apply (subst fetch_loop.simps)
  apply (simp add: assms)
  apply (subst fetch_loop.simps)
  apply (simp add: assms)
  done

theorem get_all_events_three_pages_witness:
  "''t1'' \<noteq> [] \<and> ''t2'' \<noteq> []
   \<and> pages_client ''eu-west-1'' ''stack'' None
       = Inr \<lparr>StackEvents = Some [stack_event ''A'' CREATE_COMPLETE 9], NextToken = Some ''t1''\<rparr>
   \<and> pages_client ''eu-west-1'' ''stack'' (Some ''t1'')
       = Inr \<lparr>StackEvents = Some [stack_event ''A'' CREATE_IN_PROGRESS 2], NextToken = Some ''t2''\<rparr>
   \<and> pages_client ''eu-west-1'' ''stack'' (Some ''t2'')
       = Inr \<lparr>StackEvents = Some [stack_event ''A'' CREATE_IN_PROGRESS 1], NextToken = None\<rparr>
   \<and> get_all_events pages_client ''stack'' ''eu-west-1''
       = Some (Inr ([stack_event ''A'' CREATE_COMPLETE 9] @ [stack_event ''A'' CREATE_IN_PROGRESS 2]
                      @ [stack_event ''A'' CREATE_IN_PROGRESS 1],
                    [(''stack'', None), (''stack'', Some ''t1''), (''stack'', Some ''t2'')]))"
proof -
  have h1: "''t1'' \<noteq> []" by simp
  have h2: "''t2'' \<noteq> []" by simp
  have h3: "pages_client ''eu-west-1'' ''stack'' None
       = Inr \<lparr>StackEvents = Some [stack_event ''A'' CREATE_COMPLETE 9], NextToken = Some ''t1''\<rparr>"
    by (simp add: pages_client_def)
  have h4: "pages_client ''eu-west-1'' ''stack'' (Some ''t1'')
       = Inr \<lparr>StackEvents = Some [stack_event ''A'' CREATE_IN_PROGRESS 2], NextToken = Some ''t2''\<rparr>"
    by (simp add: pages_client_def)
  have h5: "pages_client ''eu-west-1'' ''stack'' (Some ''t2'')
       = Inr \<lparr>StackEvents = Some [stack_event ''A'' CREATE_IN_PROGRESS 1], NextToken = None\<rparr>"
    by (simp add: pages_client_def)
  show ?thesis
    using h1 h2 h3 h4 h5
      get_all_events_three_pages
        [where boto3_client = pages_client and region = "''eu-west-1''" and stack_name = "''stack''",
         OF h1 h2 h3 h4 h5]
    by simp
qed

end
